theory Spec2Isabelle
  imports Complex_Main "HOL-Library.AList"
begin

section \<open>Python values, failures and containers\<close>

text \<open>
  Every exception the modelled code can raise is a value. \<open>SystemExit\<close> is the
  \<^verbatim>\<open>exit(1)\<close> of \<^verbatim>\<open>utils.OrderedSet\<close>. \<open>DanglingRef\<close> has no Python
  counterpart: objects live in an explicit store addressed by references, and a reference
  outside the store (which Python cannot build) is reported by this value.
\<close>

datatype error =
  AssertionError | AttributeError | KeyError | IndexError | ValueError | TypeError
  | StopIteration | SystemExit | DanglingRef

type_synonym ref = nat

fun ebind :: "error + 'a \<Rightarrow> ('a \<Rightarrow> error + 'b) \<Rightarrow> error + 'b" where
  "ebind (Inl e) f = Inl e"
| "ebind (Inr x) f = f x"

definition deref :: "(ref \<rightharpoonup> 'a) \<Rightarrow> ref \<Rightarrow> error + 'a" where
  "deref m r = (case m r of None \<Rightarrow> Inl DanglingRef | Some x \<Rightarrow> Inr x)"

text \<open>
  A float is \<^verbatim>\<open>np.nan\<close> (the "unset" mark of the task fields), an infinity, or a
  finite number, taken as a real. The rounding of an exact result to a double (or to an
  infinity on overflow) is a parameter \<open>rnd\<close> of the arithmetic, so that every statement
  about a sum holds for the sum the machine stores.
\<close>

datatype pyfloat = NaN | PInf | NInf | Fin real

fun isnan :: "pyfloat \<Rightarrow> bool" where
  "isnan NaN = True"
| "isnan x = False"

fun fneg :: "pyfloat \<Rightarrow> pyfloat" where
  "fneg NaN = NaN"
| "fneg PInf = NInf"
| "fneg NInf = PInf"
| "fneg (Fin a) = Fin (- a)"

fun fadd :: "(real \<Rightarrow> pyfloat) \<Rightarrow> pyfloat \<Rightarrow> pyfloat \<Rightarrow> pyfloat" where
  "fadd rnd (Fin a) (Fin b) = rnd (a + b)"
| "fadd rnd NaN b = NaN"
| "fadd rnd a NaN = NaN"
| "fadd rnd PInf NInf = NaN"
| "fadd rnd NInf PInf = NaN"
| "fadd rnd PInf b = PInf"
| "fadd rnd NInf b = NInf"
| "fadd rnd a PInf = PInf"
| "fadd rnd a NInf = NInf"

definition fsub :: "(real \<Rightarrow> pyfloat) \<Rightarrow> pyfloat \<Rightarrow> pyfloat \<Rightarrow> pyfloat" where
  "fsub rnd a b = fadd rnd a (fneg b)"

text \<open>\<^verbatim>\<open>a < b\<close> on floats: false whenever an operand is \<^verbatim>\<open>nan\<close>.\<close>

fun flt :: "pyfloat \<Rightarrow> pyfloat \<Rightarrow> bool" where
  "flt (Fin a) (Fin b) = (a < b)"
| "flt NaN b = False"
| "flt a NaN = False"
| "flt PInf b = False"
| "flt a NInf = False"
| "flt a PInf = True"
| "flt NInf b = True"

text \<open>\<^verbatim>\<open>max(0, x)\<close>: Python keeps the first argument unless \<^verbatim>\<open>x > 0\<close>.\<close>

definition py_max0 :: "pyfloat \<Rightarrow> pyfloat" where
  "py_max0 x = (if flt (Fin 0) x then x else Fin 0)"

text \<open>
  The dynamically typed values that meet in comparisons, membership tests and dictionary
  keys. Objects of the classes \<^verbatim>\<open>Task\<close>, \<^verbatim>\<open>Stage\<close>, \<^verbatim>\<open>Job\<close> and
  \<^verbatim>\<open>Executor\<close> define neither \<^verbatim>\<open>__eq__\<close> nor \<^verbatim>\<open>__hash__\<close> nor an ordering, so
  they are equal only to themselves, and \<^verbatim>\<open><\<close> between an object and a number raises
  \<^verbatim>\<open>TypeError\<close>.
\<close>

datatype pyval =
  NoneVal | IntVal int | FloatVal pyfloat | TimeHorizonVal
  | TaskVal ref | StageVal ref | JobVal ref | ExecutorVal ref

fun py_lt :: "pyval \<Rightarrow> pyval \<Rightarrow> error + bool" where
  "py_lt (FloatVal a) (FloatVal b) = Inr (flt a b)"
| "py_lt (IntVal a) (IntVal b) = Inr (a < b)"
| "py_lt (IntVal a) (FloatVal b) = Inr (flt (Fin (real_of_int a)) b)"
| "py_lt (FloatVal a) (IntVal b) = Inr (flt a (Fin (real_of_int b)))"
| "py_lt a b = Inl TypeError"

section \<open>The data model of env.py\<close>

text \<open>
  Objects are records in a store; a field that holds an object holds its reference, and
  \<^verbatim>\<open>None\<close> is \<open>None\<close>. The \<^verbatim>\<open>time_horizon\<close> every task and stage shares is the
  \<open>cur_time\<close> of the store. Fields no modelled method reads or writes (a stage's
  \<^verbatim>\<open>finish_time\<close> and \<^verbatim>\<open>descendants\<close>, a job's name, arrival and finish fields) are
  left out.
\<close>

record task =
  t_idx :: int
  t_duration :: pyfloat
  t_start_time :: pyfloat
  t_finish_time :: pyfloat
  t_executor :: "ref option"
  t_stage :: "ref option"

record executor =
  e_idx :: int
  e_task :: "ref option"
  e_stage :: "ref option"
  e_job :: "ref option"

record stage =
  s_idx :: int
  s_tasks :: "ref list"
  first_wave :: "(int \<times> pyfloat list) list"
  rest_wave :: "(int \<times> pyfloat list) list"
  fresh_durations :: "(int \<times> pyfloat list) list"
  s_num_tasks :: int
  s_num_finished_tasks :: int
  s_next_task_idx :: int
  s_no_more_task :: bool
  s_all_tasks_done :: bool
  s_executors :: "ref list"
  s_parent_stages :: "ref list"
  s_child_stages :: "ref list"
  s_job :: "ref option"

record job =
  j_stages :: "ref list"
  j_adj_mat :: "int list list"
  j_num_stages :: int
  j_executors :: "ref list"
  j_frontier_stages :: "ref list"
  executor2interval :: "(int \<times> int \<times> int) list"

text \<open>
  A pseudo-random generator is the stream of its future raw outputs; any sequence of
  results numpy can return is the image of some stream. \<open>np_random\<close> is the generator
  handed to every stage at construction, \<open>global_random\<close> is numpy's module-level
  \<^verbatim>\<open>np.random\<close>. \<open>warmup_delay\<close> is \<^verbatim>\<open>args.warmup_delay\<close> of the absent params module,
  \<open>to_double\<close> the rounding of the float arithmetic.
\<close>

type_synonym rng = "nat \<Rightarrow> nat"

record world =
  w_tasks :: "ref \<rightharpoonup> task"
  w_stages :: "ref \<rightharpoonup> stage"
  w_jobs :: "ref \<rightharpoonup> job"
  w_executors :: "ref \<rightharpoonup> executor"
  cur_time :: pyfloat
  np_random :: rng
  global_random :: rng
  warmup_delay :: pyfloat
  to_double :: "real \<Rightarrow> pyfloat"

section \<open>Task\<close>

definition Task_init :: "int \<Rightarrow> pyfloat \<Rightarrow> task" where
  "Task_init idx duration =
     \<lparr>t_idx = idx, t_duration = duration, t_start_time = NaN, t_finish_time = NaN,
      t_executor = None, t_stage = None\<rparr>"

definition Task_reset :: "task \<Rightarrow> task" where
  "Task_reset t = t\<lparr>t_start_time := NaN, t_finish_time := NaN, t_executor := None\<rparr>"

text \<open>
  \<^verbatim>\<open>Task.schedule(start_time, duration, executor)\<close>: the assertion, the three field
  writes, then the binding of the executor; \<^verbatim>\<open>self.stage.job\<close> raises on a task that
  belongs to no stage.
\<close>

definition Task_schedule :: "world \<Rightarrow> ref \<Rightarrow> pyfloat \<Rightarrow> pyfloat \<Rightarrow> ref \<Rightarrow> error + world" where
  "Task_schedule w tid start_time duration eid =
     ebind (deref (w_tasks w) tid) (\<lambda>t.
       if isnan (t_start_time t) \<and> isnan (t_finish_time t) \<and> t_executor t = None
       then ebind (deref (w_executors w) eid) (\<lambda>e.
         case t_stage t of
           None \<Rightarrow> Inl AttributeError
         | Some sid \<Rightarrow> ebind (deref (w_stages w) sid) (\<lambda>s.
             Inr (w\<lparr>w_tasks := (w_tasks w)(tid \<mapsto>
                        t\<lparr>t_start_time := start_time, t_duration := duration,
                          t_finish_time := fadd (to_double w) start_time duration,
                          t_executor := Some eid\<rparr>),
                    w_executors := (w_executors w)(eid \<mapsto>
                        e\<lparr>e_task := Some tid, e_stage := t_stage t, e_job := s_job s\<rparr>)\<rparr>)))
       else Inl AssertionError)"

text \<open>
  \<^verbatim>\<open>Task.get_duration()\<close>. The second operand of the \<^verbatim>\<open>or\<close> compares the
  \<^verbatim>\<open>TimeHorizon\<close> object itself (not its \<^verbatim>\<open>cur_time\<close>) with the start time.
\<close>

definition Task_get_duration :: "world \<Rightarrow> ref \<Rightarrow> error + pyfloat" where
  "Task_get_duration w tid =
     ebind (deref (w_tasks w) tid) (\<lambda>t.
       if isnan (t_start_time t) then Inr (t_duration t)
       else ebind (py_lt TimeHorizonVal (FloatVal (t_start_time t))) (\<lambda>b.
         if b then Inr (t_duration t)
         else Inr (py_max0 (fsub (to_double w) (t_finish_time t) (cur_time w)))))"

text \<open>The two states of a task's scheduling fields.\<close>

definition task_unset :: "task \<Rightarrow> bool" where
  "task_unset t = (isnan (t_start_time t) \<and> isnan (t_finish_time t) \<and> t_executor t = None)"

definition task_set :: "task \<Rightarrow> bool" where
  "task_set t = (\<not> isnan (t_start_time t) \<and> \<not> isnan (t_finish_time t) \<and> t_executor t \<noteq> None)"

section \<open>Containers and the random source\<close>

text \<open>
  A dictionary is an association list in insertion order: \<open>AList.update\<close> overwrites a
  present key in place and appends a new one, \<open>AList.delete\<close> is \<^verbatim>\<open>del\<close>, and a
  read of a missing key raises \<^verbatim>\<open>KeyError\<close>.
\<close>

definition dict_get :: "('k \<times> 'v) list \<Rightarrow> 'k \<Rightarrow> error + 'v" where
  "dict_get d k = (case map_of d k of None \<Rightarrow> Inl KeyError | Some v \<Rightarrow> Inr v)"

definition dict_del :: "'k \<Rightarrow> ('k \<times> 'v) list \<Rightarrow> error + ('k \<times> 'v) list" where
  "dict_del k d = (if map_of d k = None then Inl KeyError else Inr (AList.delete k d))"

text \<open>
  \<^verbatim>\<open>utils.OrderedSet\<close>: the keys of an ordered dictionary. Adding a present item
  leaves the set as it is; removing from an empty set or removing a missing item prints
  a message and exits.
\<close>

definition oset_add :: "'a \<Rightarrow> 'a list \<Rightarrow> 'a list" where
  "oset_add x xs = (if x \<in> set xs then xs else xs @ [x])"

definition oset_remove :: "'a \<Rightarrow> 'a list \<Rightarrow> error + 'a list" where
  "oset_remove x xs =
     (if length xs = 0 then Inl SystemExit
      else if x \<notin> set xs then Inl SystemExit
      else Inr (removeAll x xs))"

text \<open>\<^verbatim>\<open>xs[i]\<close> on a list, with Python's negative indices.\<close>

definition py_index :: "'a list \<Rightarrow> int \<Rightarrow> error + 'a" where
  "py_index xs i =
     (if 0 \<le> i \<and> i < int (length xs) then Inr (xs ! nat i)
      else if i < 0 \<and> - int (length xs) \<le> i then Inr (xs ! nat (int (length xs) + i))
      else Inl IndexError)"

text \<open>
  \<^verbatim>\<open>randint(low, high)\<close> returns an integer of the half-open range and consumes one raw
  output; an empty range raises. \<^verbatim>\<open>randint(n)\<close> is \<^verbatim>\<open>randint(0, n)\<close>. \<open>draw\<close> is
  the idiom \<^verbatim>\<open>xs[np.random.randint(len(xs))]\<close> of \<^verbatim>\<open>Stage.schedule\<close>.
\<close>

definition randint :: "rng \<Rightarrow> int \<Rightarrow> int \<Rightarrow> error + (int \<times> rng)" where
  "randint g low high =
     (if high \<le> low then Inl ValueError
      else Inr (low + int (g 0) mod (high - low), \<lambda>i. g (Suc i)))"

definition draw :: "rng \<Rightarrow> pyfloat list \<Rightarrow> error + (pyfloat \<times> rng)" where
  "draw g xs = ebind (randint g 0 (int (length xs))) (\<lambda>(i, g'). Inr (xs ! nat i, g'))"

section \<open>Executor\<close>

definition detach_stage :: "world \<Rightarrow> ref \<Rightarrow> error + world" where
  "detach_stage w eid =
     ebind (deref (w_executors w) eid) (\<lambda>e.
     ebind (case e_stage e of
              None \<Rightarrow> Inr w
            | Some sid \<Rightarrow> ebind (deref (w_stages w) sid) (\<lambda>s.
                if eid \<in> set (s_executors s)
                then ebind (oset_remove eid (s_executors s)) (\<lambda>xs.
                       Inr (w\<lparr>w_stages := (w_stages w)(sid \<mapsto> s\<lparr>s_executors := xs\<rparr>)\<rparr>))
                else Inr w)) (\<lambda>w1.
     Inr (w1\<lparr>w_executors := (w_executors w1)(eid \<mapsto> e\<lparr>e_stage := None, e_task := None\<rparr>)\<rparr>)))"

definition detach_job :: "world \<Rightarrow> ref \<Rightarrow> error + world" where
  "detach_job w eid =
     ebind (deref (w_executors w) eid) (\<lambda>e.
     ebind (case e_job e of
              None \<Rightarrow> Inr w
            | Some jid \<Rightarrow> ebind (deref (w_jobs w) jid) (\<lambda>j.
                if eid \<in> set (j_executors j)
                then ebind (oset_remove eid (j_executors j)) (\<lambda>xs.
                       Inr (w\<lparr>w_jobs := (w_jobs w)(jid \<mapsto> j\<lparr>j_executors := xs\<rparr>)\<rparr>))
                else Inr w)) (\<lambda>w1.
     detach_stage (w1\<lparr>w_executors := (w_executors w1)(eid \<mapsto> e\<lparr>e_job := None\<rparr>)\<rparr>) eid))"

section \<open>Stage\<close>

fun all_parents_done :: "world \<Rightarrow> ref list \<Rightarrow> error + bool" where
  "all_parents_done w [] = Inr True"
| "all_parents_done w (p # ps) =
     ebind (deref (w_stages w) p) (\<lambda>s.
       if \<not> s_all_tasks_done s then Inr False else all_parents_done w ps)"

definition is_runnable :: "world \<Rightarrow> ref \<Rightarrow> error + bool" where
  "is_runnable w sid =
     ebind (deref (w_stages w) sid) (\<lambda>s.
       if s_no_more_task s \<or> s_all_tasks_done s then Inr False
       else all_parents_done w (s_parent_stages s))"

text \<open>
  \<^verbatim>\<open>get_executor_interval_map()\<close>, with \<^verbatim>\<open>args.executor_data_point\<close> and
  \<^verbatim>\<open>args.exec_cap\<close> of the absent params module as parameters. \<open>py_range a b\<close> is
  \<^verbatim>\<open>range(a, b)\<close>.
\<close>

definition py_range :: "int \<Rightarrow> int \<Rightarrow> int list" where
  "py_range a b = [a..b - 1]"

definition set_all :: "int list \<Rightarrow> int \<times> int \<Rightarrow> (int \<times> int \<times> int) list \<Rightarrow> (int \<times> int \<times> int) list" where
  "set_all es v m = fold (\<lambda>e. AList.update e v) es m"

fun interval_center :: "int list \<Rightarrow> (int \<times> int \<times> int) list \<Rightarrow> (int \<times> int \<times> int) list" where
  "interval_center (a # b # rest) m =
     interval_center (b # rest) (AList.update b (b, b) (set_all (py_range (a + 1) b) (a, b) m))"
| "interval_center rest m = m"

definition get_executor_interval_map :: "int list \<Rightarrow> int \<Rightarrow> error + (int \<times> int \<times> int) list" where
  "get_executor_interval_map executor_data_point exec_cap =
     ebind (py_index executor_data_point 0) (\<lambda>first.
     ebind (py_index executor_data_point (- 1)) (\<lambda>last.
       let m1 = set_all (py_range 0 (first + 1)) (first, first) [];
           m2 = interval_center executor_data_point m1
       in Inr (if exec_cap > last
               then set_all (py_range (last + 1) (exec_cap + 1)) (last, last) m2
               else m2)))"

text \<open>
  \<^verbatim>\<open>Stage.sample_executor_key\<close> exists twice. Both files resolve the count through the
  interval table with one draw from the stage's own generator; they differ in how the
  largest key of \<^verbatim>\<open>first_wave\<close> is found (a loop from 0 in env.py, \<^verbatim>\<open>max\<close> in
  spark\_env/stage.py). \<^verbatim>\<open>Stage.schedule\<close> exists twice as well; \<open>variant\<close> names the
  file.
\<close>

datatype variant = EnvPy | StagePy

definition largest_key :: "variant \<Rightarrow> (int \<times> pyfloat list) list \<Rightarrow> error + int" where
  "largest_key v d =
     (case v of
        EnvPy \<Rightarrow> Inr (fold (\<lambda>e largest. if e > largest then e else largest) (map fst d) 0)
      | StagePy \<Rightarrow> (case map fst d of [] \<Rightarrow> Inl ValueError | k # ks \<Rightarrow> Inr (fold max ks k)))"

definition sample_executor_key ::
  "variant \<Rightarrow> rng \<Rightarrow> stage \<Rightarrow> job \<Rightarrow> int \<Rightarrow> error + (int \<times> rng)" where
  "sample_executor_key v g s j num_executors =
     ebind (dict_get (executor2interval j) num_executors) (\<lambda>(left_executor, right_executor).
     ebind (if left_executor = right_executor then Inr (left_executor, g)
            else ebind (randint g 1 (right_executor - left_executor + 1)) (\<lambda>(rand_data_point, g').
                   if rand_data_point \<le> num_executors - left_executor
                   then Inr (left_executor, g') else Inr (right_executor, g'))) (\<lambda>(executor_key, g').
     if map_of (first_wave s) executor_key = None
     then ebind (largest_key v (first_wave s)) (\<lambda>k. Inr (k, g'))
     else Inr (executor_key, g')))"

text \<open>
  The duration sampling of \<^verbatim>\<open>Stage.schedule\<close> (the same text in both files): the
  \<^verbatim>\<open>if\<close>/\<^verbatim>\<open>elif\<close>/\<^verbatim>\<open>else\<close> chain over the executor's bound task. Every draw is
  \<^verbatim>\<open>np.random.randint\<close>, the module-level generator, so the function takes and
  returns that generator.
\<close>

definition job_of_task :: "world \<Rightarrow> ref \<Rightarrow> error + ref option" where
  "job_of_task w tid =
     ebind (deref (w_tasks w) tid) (\<lambda>t.
       case t_stage t of
         None \<Rightarrow> Inl AttributeError
       | Some sid \<Rightarrow> ebind (deref (w_stages w) sid) (\<lambda>s. Inr (s_job s)))"

definition stage_of_task :: "world \<Rightarrow> ref \<Rightarrow> error + ref option" where
  "stage_of_task w tid = ebind (deref (w_tasks w) tid) (\<lambda>t. Inr (t_stage t))"

definition cond_fresh :: "world \<Rightarrow> executor \<Rightarrow> ref \<Rightarrow> error + bool" where
  "cond_fresh w e tid =
     (case e_task e of
        None \<Rightarrow> Inr True
      | Some et \<Rightarrow> ebind (job_of_task w et) (\<lambda>ej.
                    ebind (job_of_task w tid) (\<lambda>tj. Inr (ej \<noteq> tj))))"

definition cond_rest_wave :: "world \<Rightarrow> stage \<Rightarrow> int \<Rightarrow> executor \<Rightarrow> ref \<Rightarrow> error + bool" where
  "cond_rest_wave w s executor_key e tid =
     (case e_task e of
        None \<Rightarrow> Inr False
      | Some et \<Rightarrow> ebind (stage_of_task w et) (\<lambda>es.
                    ebind (stage_of_task w tid) (\<lambda>ts.
                      if es = ts
                      then ebind (dict_get (rest_wave s) executor_key) (\<lambda>rw. Inr (length rw > 0))
                      else Inr False)))"

definition sample_duration ::
  "world \<Rightarrow> stage \<Rightarrow> int \<Rightarrow> executor \<Rightarrow> ref \<Rightarrow> error + (pyfloat \<times> rng)" where
  "sample_duration w s executor_key e tid =
     ebind (cond_fresh w e tid) (\<lambda>fresh.
       if fresh
       then ebind (dict_get (fresh_durations s) executor_key) (\<lambda>warmup_duration.
              if length warmup_duration > 0 then draw (global_random w) warmup_duration
              else ebind (dict_get (first_wave s) executor_key) (\<lambda>fw.
                   ebind (draw (global_random w) fw) (\<lambda>(d, g).
                     Inr (fadd (to_double w) d (warmup_delay w), g))))
       else ebind (cond_rest_wave w s executor_key e tid) (\<lambda>rest.
              if rest
              then ebind (dict_get (rest_wave s) executor_key) (\<lambda>rw. draw (global_random w) rw)
              else ebind (dict_get (first_wave s) executor_key) (\<lambda>fw.
                     if length fw > 0 then draw (global_random w) fw
                     else ebind (dict_get (fresh_durations s) executor_key) (\<lambda>warmup_duration.
                            draw (global_random w) warmup_duration))))"

text \<open>
  The end of \<^verbatim>\<open>Stage.schedule\<close>, entered when \<^verbatim>\<open>no_more_task\<close> has become true.
  spark\_env/stage.py removes the stage from \<^verbatim>\<open>self.job.frontier_stages\<close>; env.py
  writes \<^verbatim>\<open>self.job.frontier_staes\<close>, an attribute no \<^verbatim>\<open>Job\<close> has.
\<close>

definition leave_frontier :: "variant \<Rightarrow> world \<Rightarrow> ref \<Rightarrow> ref \<Rightarrow> error + world" where
  "leave_frontier v w jid sid =
     ebind (deref (w_jobs w) jid) (\<lambda>j.
       if sid \<in> set (j_frontier_stages j)
       then (case v of
               EnvPy \<Rightarrow> Inl AttributeError
             | StagePy \<Rightarrow> ebind (oset_remove sid (j_frontier_stages j)) (\<lambda>fs.
                            Inr (w\<lparr>w_jobs := (w_jobs w)(jid \<mapsto> j\<lparr>j_frontier_stages := fs\<rparr>)\<rparr>)))
       else Inr w)"

text \<open>
  \<^verbatim>\<open>Stage.schedule(executor)\<close> in two parts. \<open>Stage_schedule_assign\<close> is the method
  from its first line to \<^verbatim>\<open>self.no_more_task = self.next_task_idx >= self.num_tasks\<close>;
  its result is the store, the scheduled task, the stage's job and the new
  \<^verbatim>\<open>no_more_task\<close>. \<open>Stage_schedule\<close> is the whole method: the first part, then the
  frontier update when \<^verbatim>\<open>no_more_task\<close> holds, then \<^verbatim>\<open>return task\<close>.
\<close>

definition Stage_schedule_assign ::
  "variant \<Rightarrow> world \<Rightarrow> ref \<Rightarrow> ref \<Rightarrow> error + (world \<times> ref \<times> ref \<times> bool)" where
  "Stage_schedule_assign v w sid eid =
     ebind (deref (w_stages w) sid) (\<lambda>s.
     if s_next_task_idx s < s_num_tasks s
     then
       ebind (py_index (s_tasks s) (s_next_task_idx s)) (\<lambda>tid.
       case s_job s of
         None \<Rightarrow> Inl AttributeError
       | Some jid \<Rightarrow>
       ebind (deref (w_jobs w) jid) (\<lambda>j.
       if int (length (j_executors j)) > 0
       then
         ebind (sample_executor_key v (np_random w) s j (int (length (j_executors j)))) (\<lambda>(executor_key, g1).
         ebind (deref (w_executors w) eid) (\<lambda>e.
         ebind (sample_duration w s executor_key e tid) (\<lambda>(duration, g2).
         ebind (detach_stage (w\<lparr>np_random := g1, global_random := g2\<rparr>) eid) (\<lambda>w2.
         ebind (Task_schedule w2 tid (cur_time w2) duration eid) (\<lambda>w3.
         ebind (deref (w_stages w3) sid) (\<lambda>s3.
         ebind (deref (w_executors w3) eid) (\<lambda>e3.
           let next_task_idx = s_next_task_idx s3 + 1;
               no_more_task = (next_task_idx \<ge> s_num_tasks s3)
           in Inr (w3\<lparr>w_stages := (w_stages w3)(sid \<mapsto>
                          s3\<lparr>s_executors := oset_add eid (s_executors s3),
                             s_next_task_idx := next_task_idx,
                             s_no_more_task := no_more_task\<rparr>),
                      w_executors := (w_executors w3)(eid \<mapsto> e3\<lparr>e_stage := Some sid\<rparr>)\<rparr>,
                   tid, jid, no_more_task))))))))
       else Inl AssertionError))
     else Inl AssertionError)"

definition Stage_schedule :: "variant \<Rightarrow> world \<Rightarrow> ref \<Rightarrow> ref \<Rightarrow> error + (world \<times> ref)" where
  "Stage_schedule v w sid eid =
     ebind (Stage_schedule_assign v w sid eid) (\<lambda>(w4, tid, jid, no_more_task).
       if no_more_task
       then ebind (leave_frontier v w4 jid sid) (\<lambda>w5. Inr (w5, tid))
       else Inr (w4, tid))"

section \<open>Job\<close>

text \<open>
  \<^verbatim>\<open>Job.update_frontier_stages(stage)\<close>. The membership test is
  \<^verbatim>\<open>child.idx not in self.frontier_stages\<close>: the integer index is looked up in a set
  whose items are \<^verbatim>\<open>Stage\<close> objects.
\<close>

definition update_frontier_step :: "world \<Rightarrow> ref \<Rightarrow> ref \<Rightarrow> bool \<Rightarrow> error + (world \<times> bool)" where
  "update_frontier_step w jid c is_changed =
     ebind (deref (w_stages w) c) (\<lambda>child.
     ebind (is_runnable w c) (\<lambda>runnable.
     ebind (deref (w_jobs w) jid) (\<lambda>j.
       if runnable \<and> IntVal (s_idx child) \<notin> set (map StageVal (j_frontier_stages j))
       then Inr (w\<lparr>w_jobs := (w_jobs w)(jid \<mapsto>
                    j\<lparr>j_frontier_stages := oset_add c (j_frontier_stages j)\<rparr>)\<rparr>, True)
       else Inr (w, is_changed))))"

fun update_frontier_loop :: "world \<Rightarrow> ref \<Rightarrow> ref list \<Rightarrow> bool \<Rightarrow> error + (world \<times> bool)" where
  "update_frontier_loop w jid [] is_changed = Inr (w, is_changed)"
| "update_frontier_loop w jid (c # cs) is_changed =
     (case update_frontier_step w jid c is_changed of
        Inl err \<Rightarrow> Inl err
      | Inr (w', is_changed') \<Rightarrow> update_frontier_loop w' jid cs is_changed')"

definition update_frontier_stages :: "world \<Rightarrow> ref \<Rightarrow> ref \<Rightarrow> error + (world \<times> bool)" where
  "update_frontier_stages w jid sid =
     ebind (deref (w_stages w) sid) (\<lambda>s. update_frontier_loop w jid (s_child_stages s) False)"

section \<open>FreeExecutors\<close>

text \<open>
  \<^verbatim>\<open>job2bundled_executors\<close>: a dictionary from a job (or \<^verbatim>\<open>None\<close>, the free pool) to
  the ordered set of its executors.
\<close>

type_synonym free_executors = "(ref option \<times> ref list) list"

definition FreeExecutors_init :: "ref list \<Rightarrow> free_executors" where
  "FreeExecutors_init es = [(None, fold oset_add es [])]"

definition FreeExecutors_contain_executor :: "free_executors \<Rightarrow> ref option \<Rightarrow> ref \<Rightarrow> error + bool" where
  "FreeExecutors_contain_executor p job eid = ebind (dict_get p job) (\<lambda>g. Inr (eid \<in> set g))"

definition FreeExecutors_pop :: "free_executors \<Rightarrow> ref option \<Rightarrow> error + (free_executors \<times> ref)" where
  "FreeExecutors_pop p job =
     ebind (dict_get p job) (\<lambda>g.
       case g of
         [] \<Rightarrow> Inl StopIteration
       | e # rest \<Rightarrow> ebind (oset_remove e g) (\<lambda>g'. Inr (AList.update job g' p, e)))"

definition FreeExecutors_add ::
  "free_executors \<Rightarrow> world \<Rightarrow> ref option \<Rightarrow> ref \<Rightarrow> error + (free_executors \<times> world)" where
  "FreeExecutors_add p w job eid =
     ebind (if job = None then detach_job w eid else detach_stage w eid) (\<lambda>w'.
     ebind (dict_get p job) (\<lambda>g. Inr (AList.update job (oset_add eid g) p, w')))"

definition FreeExecutors_remove :: "free_executors \<Rightarrow> world \<Rightarrow> ref \<Rightarrow> error + free_executors" where
  "FreeExecutors_remove p w eid =
     ebind (deref (w_executors w) eid) (\<lambda>e.
     ebind (dict_get p (e_job e)) (\<lambda>g.
     ebind (oset_remove eid g) (\<lambda>g'. Inr (AList.update (e_job e) g' p))))"

definition FreeExecutors_add_job :: "free_executors \<Rightarrow> ref option \<Rightarrow> free_executors" where
  "FreeExecutors_add_job p job = AList.update job [] p"

definition remove_job_step :: "free_executors \<Rightarrow> world \<Rightarrow> ref \<Rightarrow> error + (free_executors \<times> world)" where
  "remove_job_step p w e =
     ebind (detach_job w e) (\<lambda>w'.
     ebind (dict_get p None) (\<lambda>free. Inr (AList.update None (oset_add e free) p, w')))"

fun remove_job_loop :: "free_executors \<Rightarrow> world \<Rightarrow> ref list \<Rightarrow> error + (free_executors \<times> world)" where
  "remove_job_loop p w [] = Inr (p, w)"
| "remove_job_loop p w (e # es) =
     (case remove_job_step p w e of
        Inl err \<Rightarrow> Inl err
      | Inr (p', w') \<Rightarrow> remove_job_loop p' w' es)"

definition FreeExecutors_remove_job ::
  "free_executors \<Rightarrow> world \<Rightarrow> ref option \<Rightarrow> error + (free_executors \<times> world)" where
  "FreeExecutors_remove_job p w job =
     ebind (dict_get p job) (\<lambda>g.
     ebind (remove_job_loop p w g) (\<lambda>(p', w').
     ebind (dict_del job p') (\<lambda>p''. Inr (p'', w'))))"

text \<open>The number of groups that hold an executor.\<close>

definition group_count :: "free_executors \<Rightarrow> ref \<Rightarrow> nat" where
  "group_count p eid = length (filter (\<lambda>kg. eid \<in> set (snd kg)) p)"

section \<open>ExecutorCommit\<close>

text \<open>
  The ledger's three dictionaries. A key is a job, a stage or \<^verbatim>\<open>None\<close>;
  \<^verbatim>\<open>commit[src]\<close> is an \<^verbatim>\<open>OrderedDict\<close> from destination stage to amount.
\<close>

record executor_commit =
  commit :: "(pyval \<times> (pyval \<times> int) list) list"
  stage_commit :: "(pyval \<times> int) list"
  backward :: "(pyval \<times> pyval set) list"

definition ExecutorCommit_init :: executor_commit where
  "ExecutorCommit_init = \<lparr>commit = [], stage_commit = [], backward = []\<rparr>"










text \<open>\<^verbatim>\<open>commit[src][stage]\<close> read as 0 where the pair has no entry, and its sum over all sources.\<close>

definition pair_count :: "(pyval \<times> int) list \<Rightarrow> pyval \<Rightarrow> int" where
  "pair_count d stage = (case map_of d stage of None \<Rightarrow> 0 | Some n \<Rightarrow> n)"


section \<open>merge\_jobs\<close>

text \<open>
  The adjacency matrix is a list of rows. \<open>np_index\<close> is numpy's index check,
  \<open>mat_set\<close> the write of one entry, \<open>mat_set_block\<close> the slice assignment
  \<^verbatim>\<open>adj_mat[base: base + n, base: base + n] = job.adj_mat\<close> for an n-by-n block that
  fits (the shape \<^verbatim>\<open>Job.__init__\<close> asserts); any other shape is reported as numpy's
  \<^verbatim>\<open>ValueError\<close>, broadcasting of smaller blocks is not modelled.
\<close>

definition mat_zeros :: "int \<Rightarrow> int list list" where
  "mat_zeros n = replicate (nat n) (replicate (nat n) 0)"

definition np_index :: "nat \<Rightarrow> int \<Rightarrow> error + nat" where
  "np_index n i =
     (if 0 \<le> i \<and> i < int n then Inr (nat i)
      else if i < 0 \<and> - int n \<le> i then Inr (nat (int n + i))
      else Inl IndexError)"

definition mat_set :: "int list list \<Rightarrow> int \<Rightarrow> int \<Rightarrow> int \<Rightarrow> error + int list list" where
  "mat_set m r c v =
     ebind (np_index (length m) r) (\<lambda>i.
     ebind (np_index (length (m ! i)) c) (\<lambda>k. Inr (m[i := (m ! i)[k := v]])))"

definition mat_set_block :: "int list list \<Rightarrow> int \<Rightarrow> int \<Rightarrow> int list list \<Rightarrow> error + int list list" where
  "mat_set_block m base n blk =
     (if 0 \<le> base \<and> 0 \<le> n \<and> base + n \<le> int (length m)
         \<and> list_all (\<lambda>row. base + n \<le> int (length row)) m
         \<and> int (length blk) = n \<and> list_all (\<lambda>row. int (length row) = n) blk
      then Inr (fold (\<lambda>i m'. m'[nat base + i :=
                         take (nat base) (m' ! (nat base + i)) @ (blk ! i)
                           @ drop (nat base + nat n) (m' ! (nat base + i))])
                  [0..<nat n] m)
      else Inl ValueError)"

definition column_sum :: "int list list \<Rightarrow> int \<Rightarrow> error + int" where
  "column_sum m i =
     (if list_all (\<lambda>row. 0 \<le> i \<and> i < int (length row)) m
      then Inr (sum_list (map (\<lambda>row. row ! nat i) m))
      else Inl IndexError)"

text \<open>The loops of \<^verbatim>\<open>merge_jobs\<close>, each a recursion over the list it iterates.\<close>

fun shift_idx :: "world \<Rightarrow> int \<Rightarrow> ref list \<Rightarrow> error + world" where
  "shift_idx w base [] = Inr w"
| "shift_idx w base (sid # rest) =
     (case deref (w_stages w) sid of
        Inl err \<Rightarrow> Inl err
      | Inr s \<Rightarrow> shift_idx (w\<lparr>w_stages := (w_stages w)(sid \<mapsto> s\<lparr>s_idx := s_idx s + base\<rparr>)\<rparr>) base rest)"

definition link_source_step :: "world \<Rightarrow> job \<Rightarrow> int \<Rightarrow> int list list \<Rightarrow> int \<Rightarrow> error + int list list" where
  "link_source_step w j base adj_mat i =
     ebind (column_sum (j_adj_mat j) i) (\<lambda>total.
       if total = 0
       then ebind (py_index (j_stages j) i) (\<lambda>sid.
            ebind (deref (w_stages w) sid) (\<lambda>s.
              if length (s_parent_stages s) = 0
              then mat_set adj_mat (base - 1) (base + i) 1
              else Inl AssertionError))
       else Inr adj_mat)"

fun link_sources :: "world \<Rightarrow> job \<Rightarrow> int \<Rightarrow> int list list \<Rightarrow> int list \<Rightarrow> error + int list list" where
  "link_sources w j base adj_mat [] = Inr adj_mat"
| "link_sources w j base adj_mat (i # rest) =
     (case link_source_step w j base adj_mat i of
        Inl err \<Rightarrow> Inl err
      | Inr adj_mat' \<Rightarrow> link_sources w j base adj_mat' rest)"

fun stages_without :: "(stage \<Rightarrow> ref list) \<Rightarrow> world \<Rightarrow> ref list \<Rightarrow> error + ref list" where
  "stages_without field w [] = Inr []"
| "stages_without field w (sid # rest) =
     (case deref (w_stages w) sid of
        Inl err \<Rightarrow> Inl err
      | Inr s \<Rightarrow> (case stages_without field w rest of
                   Inl err \<Rightarrow> Inl err
                 | Inr found \<Rightarrow> Inr (if length (field s) = 0 then sid # found else found)))"

definition relate :: "world \<Rightarrow> ref \<Rightarrow> ref \<Rightarrow> error + world" where
  "relate w src_s sin_s =
     ebind (deref (w_stages w) sin_s) (\<lambda>sink.
       let w1 = w\<lparr>w_stages := (w_stages w)(sin_s \<mapsto>
                    sink\<lparr>s_child_stages := s_child_stages sink @ [src_s]\<rparr>)\<rparr>
       in ebind (deref (w_stages w1) src_s) (\<lambda>source.
            Inr (w1\<lparr>w_stages := (w_stages w1)(src_s \<mapsto>
                      source\<lparr>s_parent_stages := s_parent_stages source @ [sin_s]\<rparr>)\<rparr>)))"

fun relate_sinks :: "world \<Rightarrow> ref \<Rightarrow> ref list \<Rightarrow> error + world" where
  "relate_sinks w src_s [] = Inr w"
| "relate_sinks w src_s (sin_s # rest) =
     (case relate w src_s sin_s of
        Inl err \<Rightarrow> Inl err
      | Inr w' \<Rightarrow> relate_sinks w' src_s rest)"

fun relate_sources :: "world \<Rightarrow> ref list \<Rightarrow> ref list \<Rightarrow> error + world" where
  "relate_sources w [] sink_stages = Inr w"
| "relate_sources w (src_s # rest) sink_stages =
     (case relate_sinks w src_s sink_stages of
        Inl err \<Rightarrow> Inl err
      | Inr w' \<Rightarrow> relate_sources w' rest sink_stages)"

text \<open>
  One round of the loop over the jobs. The state is the store, the list \<^verbatim>\<open>stages\<close>,
  \<^verbatim>\<open>adj_mat\<close>, \<^verbatim>\<open>base\<close> and \<^verbatim>\<open>sink_stages\<close>.
\<close>

type_synonym merge_state = "world \<times> ref list \<times> int list list \<times> int \<times> ref list"

definition merge_job :: "merge_state \<Rightarrow> ref \<Rightarrow> error + merge_state" where
  "merge_job st jid =
     (case st of (w, stages, adj_mat, base, sink_stages) \<Rightarrow>
     ebind (deref (w_jobs w) jid) (\<lambda>j.
     ebind (shift_idx w base (j_stages j)) (\<lambda>w1.
     ebind (mat_set_block adj_mat base (j_num_stages j) (j_adj_mat j)) (\<lambda>adj1.
     ebind (if base \<noteq> 0 then link_sources w1 j base adj1 (py_range 0 (j_num_stages j))
            else Inr adj1) (\<lambda>adj2.
     ebind (stages_without s_parent_stages w1 (j_stages j)) (\<lambda>source_stages.
     ebind (relate_sources w1 source_stages sink_stages) (\<lambda>w2.
     ebind (stages_without s_child_stages w2 (j_stages j)) (\<lambda>sinks.
       if length sinks = 1
       then Inr (w2, stages @ j_stages j, adj2, base + j_num_stages j, sinks)
       else Inl AssertionError))))))))"

fun merge_loop :: "merge_state \<Rightarrow> ref list \<Rightarrow> error + merge_state" where
  "merge_loop st [] = Inr st"
| "merge_loop st (jid # rest) =
     (case merge_job st jid of
        Inl err \<Rightarrow> Inl err
      | Inr st' \<Rightarrow> merge_loop st' rest)"

fun total_stages :: "world \<Rightarrow> ref list \<Rightarrow> error + int" where
  "total_stages w [] = Inr 0"
| "total_stages w (jid # rest) =
     (case deref (w_jobs w) jid of
        Inl err \<Rightarrow> Inl err
      | Inr j \<Rightarrow> (case total_stages w rest of
                   Inl err \<Rightarrow> Inl err
                 | Inr n \<Rightarrow> Inr (j_num_stages j + n)))"

text \<open>
  \<^verbatim>\<open>merge_jobs(jobs)\<close> up to its last line: the result is the store with the re-indexed
  and re-linked stages, together with the \<^verbatim>\<open>stages\<close> and \<^verbatim>\<open>adj_mat\<close> it hands to
  \<^verbatim>\<open>Job(stages, adj_mat, name)\<close>, which stores both unchanged.
\<close>

definition merge_jobs :: "world \<Rightarrow> ref list \<Rightarrow> error + (world \<times> ref list \<times> int list list)" where
  "merge_jobs w js =
     ebind (total_stages w js) (\<lambda>num_total_stages.
     ebind (merge_loop (w, [], mat_zeros num_total_stages, 0, []) js) (\<lambda>st.
       case st of (w', stages, adj_mat, base, sink_stages) \<Rightarrow>
         if length stages = length adj_mat then Inr (w', stages, adj_mat)
         else Inl AssertionError))"






section \<open>Concrete stores\<close>

text \<open>
  One job (reference 0) with one stage (reference 0) of two tasks (references 0 and 1)
  and one executor (reference 0) assigned to the job and idle. The recorded executor
  counts are 5 and 10, the capacity is 12; the stage is in the job's frontier. The
  parameter is the state of numpy's module-level generator. All the numbers of these
  stores are small integers, whose sums a double holds exactly, so the rounding is the
  identity on them.
\<close>

definition ex_intervals :: "(int \<times> int \<times> int) list" where
  "ex_intervals = (case get_executor_interval_map [5, 10] 12 of Inl err \<Rightarrow> [] | Inr m \<Rightarrow> m)"

definition ex_stage :: stage where
  "ex_stage =
     \<lparr>s_idx = 0, s_tasks = [0, 1],
      first_wave = [(5, [Fin 3]), (10, [Fin 4])], rest_wave = [(5, [Fin 2]), (10, [])],
      fresh_durations = [(5, [Fin 7, Fin 9]), (10, [])],
      s_num_tasks = 2, s_num_finished_tasks = 0, s_next_task_idx = 0,
      s_no_more_task = False, s_all_tasks_done = False, s_executors = [],
      s_parent_stages = [], s_child_stages = [], s_job = Some 0\<rparr>"

definition ex_job :: job where
  "ex_job =
     \<lparr>j_stages = [0], j_adj_mat = [[0]], j_num_stages = 1, j_executors = [0],
      j_frontier_stages = [0], executor2interval = ex_intervals\<rparr>"

definition ex_executor :: executor where
  "ex_executor = \<lparr>e_idx = 0, e_task = None, e_stage = None, e_job = Some 0\<rparr>"

definition ex_world :: "rng \<Rightarrow> world" where
  "ex_world g =
     \<lparr>w_tasks = [0 \<mapsto> (Task_init 0 (Fin 4))\<lparr>t_stage := Some 0\<rparr>,
                  1 \<mapsto> (Task_init 1 (Fin 4))\<lparr>t_stage := Some 0\<rparr>],
      w_stages = [0 \<mapsto> ex_stage],
      w_jobs = [0 \<mapsto> ex_job],
      w_executors = [0 \<mapsto> ex_executor],
      cur_time = Fin 0, np_random = (\<lambda>i. 0), global_random = g, warmup_delay = Fin 1,
      to_double = Fin\<rparr>"

text \<open>
  The same store with a third task (reference 2) that was constructed and never given to
  a stage, and the same store with a stage whose \<^verbatim>\<open>rest_wave\<close> table has no entry for
  the count 5.
\<close>

definition ex_world_bare :: world where
  "ex_world_bare =
     (ex_world (\<lambda>i. 0))\<lparr>w_tasks := (w_tasks (ex_world (\<lambda>i. 0)))(2 \<mapsto> Task_init 2 (Fin 4))\<rparr>"


text \<open>
  A job (reference 0) of two stages: stage 0 has finished, its child stage 1 is runnable
  and not yet in the frontier.
\<close>

definition fr_stage :: "int \<Rightarrow> bool \<Rightarrow> ref list \<Rightarrow> ref list \<Rightarrow> stage" where
  "fr_stage idx done parents children =
     \<lparr>s_idx = idx, s_tasks = [], first_wave = [], rest_wave = [], fresh_durations = [],
      s_num_tasks = 1, s_num_finished_tasks = (if done then 1 else 0),
      s_next_task_idx = (if done then 1 else 0),
      s_no_more_task = done, s_all_tasks_done = done, s_executors = [],
      s_parent_stages = parents, s_child_stages = children, s_job = Some 0\<rparr>"

definition fr_world :: world where
  "fr_world =
     \<lparr>w_tasks = Map.empty,
      w_stages = [0 \<mapsto> fr_stage 0 True [] [1], 1 \<mapsto> fr_stage 1 False [0] []],
      w_jobs = [0 \<mapsto> \<lparr>j_stages = [0, 1], j_adj_mat = [[0, 1], [0, 0]], j_num_stages = 2,
                       j_executors = [], j_frontier_stages = [], executor2interval = []\<rparr>],
      w_executors = Map.empty,
      cur_time = Fin 0, np_random = (\<lambda>i. 0), global_random = (\<lambda>i. 0), warmup_delay = Fin 0,
      to_double = Fin\<rparr>"

text \<open>
  Two jobs to merge. Job 0 has the stages 0 and 1 with the one edge from stage 1 to
  stage 0, so its sink is stage 0 and its source is stage 1; job 1 has the single
  stage 2.
\<close>

definition mg_stage :: "ref list \<Rightarrow> ref list \<Rightarrow> int \<Rightarrow> stage" where
  "mg_stage parents children idx =
     \<lparr>s_idx = idx, s_tasks = [], first_wave = [], rest_wave = [], fresh_durations = [],
      s_num_tasks = 0, s_num_finished_tasks = 0, s_next_task_idx = 0,
      s_no_more_task = False, s_all_tasks_done = False, s_executors = [],
      s_parent_stages = parents, s_child_stages = children, s_job = None\<rparr>"

definition mg_job :: "ref list \<Rightarrow> int list list \<Rightarrow> job" where
  "mg_job ss adj =
     \<lparr>j_stages = ss, j_adj_mat = adj, j_num_stages = int (length ss), j_executors = [],
      j_frontier_stages = [], executor2interval = []\<rparr>"

definition mg_world :: world where
  "mg_world =
     \<lparr>w_tasks = Map.empty,
      w_stages = [0 \<mapsto> mg_stage [1] [] 0, 1 \<mapsto> mg_stage [] [0] 1, 2 \<mapsto> mg_stage [] [] 0],
      w_jobs = [0 \<mapsto> mg_job [0, 1] [[0, 0], [1, 0]], 1 \<mapsto> mg_job [2] [[0]]],
      w_executors = Map.empty,
      cur_time = Fin 0, np_random = (\<lambda>i. 0), global_random = (\<lambda>i. 0), warmup_delay = Fin 0,
      to_double = Fin\<rparr>"

section \<open>Results of the error monad\<close>

lemma ebind_eq_Inr: "ebind m f = Inr y \<longleftrightarrow> (\<exists>x. m = Inr x \<and> f x = Inr y)"
  by (cases m) auto

lemma deref_eq_Inr: "deref m r = Inr x \<longleftrightarrow> m r = Some x"
  by (simp add: deref_def split: option.splits)

lemma dict_get_eq_Inr: "dict_get d k = Inr v \<longleftrightarrow> map_of d k = Some v"
  by (simp add: dict_get_def split: option.splits)

section \<open>Task: scheduling fields\<close>

lemma Task_schedule_unset:
  assumes "w_tasks w tid = Some t" "task_unset t" "t_stage t = Some sid"
    "w_stages w sid = Some s" "w_executors w eid = Some e"
  shows "Task_schedule w tid a b eid =
     Inr (w\<lparr>w_tasks := (w_tasks w)(tid \<mapsto>
                t\<lparr>t_start_time := a, t_duration := b, t_finish_time := fadd (to_double w) a b,
                  t_executor := Some eid\<rparr>),
            w_executors := (w_executors w)(eid \<mapsto>
                e\<lparr>e_task := Some tid, e_stage := t_stage t, e_job := s_job s\<rparr>)\<rparr>)"
  using assms by (simp add: Task_schedule_def deref_def task_unset_def)

lemma Task_schedule_set:
  assumes "w_tasks w tid = Some t" "\<not> task_unset t"
  shows "Task_schedule w tid a b x = Inl AssertionError"
  using assms by (auto simp add: Task_schedule_def deref_def task_unset_def)

text \<open>
  C8, as the claim states it, fails in two places. \<^verbatim>\<open>Task.schedule\<close> has no guard on
  its arguments: called with the start time \<^verbatim>\<open>nan\<close> on an unscheduled task it returns
  and leaves start and finish time \<^verbatim>\<open>nan\<close> and the executor set, a task that is neither
  all unset nor all set. And an unscheduled task that belongs to no stage is not
  scheduled successfully: the call raises \<^verbatim>\<open>AttributeError\<close> at \<^verbatim>\<open>self.stage.job\<close>.
\<close>

theorem Task_schedule_nan_counterexample:
  "(case Task_schedule (ex_world (\<lambda>i. 0)) 0 NaN (Fin 5) 0 of
      Inl err \<Rightarrow> False
    | Inr w \<Rightarrow>
        map_option (\<lambda>t. (t_start_time t, t_finish_time t, t_executor t)) (w_tasks w 0)
          = Some (NaN, NaN, Some 0)
        \<and> map_option task_unset (w_tasks w 0) = Some False
        \<and> map_option task_set (w_tasks w 0) = Some False)
   \<and> map_option task_unset (w_tasks ex_world_bare 2) = Some True
   \<and> (case Task_schedule ex_world_bare 2 (Fin 0) (Fin 5) 0 of
        Inl err \<Rightarrow> err = AttributeError
      | Inr w \<Rightarrow> False)"
  by code_simp

text \<open>
  C8, amended: \<^verbatim>\<open>Task.schedule\<close> on a task that belongs to a stage and whose three
  scheduling fields are unset returns; it sets the start time and the executor to its
  arguments and the finish time to the float sum start time + duration, and leaves every
  other task as it was. The three fields are then all set exactly when neither the start
  time nor that sum is \<^verbatim>\<open>nan\<close>, and in that case a store in which every task has the
  three fields all unset or all set stays such a store. Any further \<^verbatim>\<open>Task.schedule\<close>
  on that task, and on any task one of whose three fields is set, fails the assertion. A
  new task and a reset task have all three fields unset.
\<close>

theorem Task_schedule_sets_once:
  assumes "w_tasks w tid = Some t" and "task_unset t" and "t_stage t = Some sid"
    and "w_stages w sid = Some s" and "w_executors w eid = Some e"
  shows "\<exists>w' t'. Task_schedule w tid start dur eid = Inr w'
           \<and> w_tasks w' tid = Some t'
           \<and> t_start_time t' = start \<and> t_finish_time t' = fadd (to_double w) start dur
           \<and> t_duration t' = dur \<and> t_executor t' = Some eid
           \<and> (task_set t' \<longleftrightarrow> \<not> isnan start \<and> \<not> isnan (fadd (to_double w) start dur))
           \<and> \<not> task_unset t'
           \<and> (\<forall>a b x. Task_schedule w' tid a b x = Inl AssertionError)
           \<and> (\<forall>k. k \<noteq> tid \<longrightarrow> w_tasks w' k = w_tasks w k)
           \<and> (\<not> isnan start \<and> \<not> isnan (fadd (to_double w) start dur)
                \<and> (\<forall>k u. w_tasks w k = Some u \<longrightarrow> task_unset u \<or> task_set u) \<longrightarrow>
                (\<forall>k u. w_tasks w' k = Some u \<longrightarrow> task_unset u \<or> task_set u))
           \<and> (\<forall>w2 k u a b x. w_tasks w2 k = Some u \<and> \<not> task_unset u \<longrightarrow>
                Task_schedule w2 k a b x = Inl AssertionError)
           \<and> task_unset (Task_init i d) \<and> task_unset (Task_reset t')"
proof -
  let ?t' = "t\<lparr>t_start_time := start, t_duration := dur,
               t_finish_time := fadd (to_double w) start dur, t_executor := Some eid\<rparr>"
  let ?w' = "w\<lparr>w_tasks := (w_tasks w)(tid \<mapsto> ?t'),
               w_executors := (w_executors w)(eid \<mapsto>
                 e\<lparr>e_task := Some tid, e_stage := t_stage t, e_job := s_job s\<rparr>)\<rparr>"
  have run: "Task_schedule w tid start dur eid = Inr ?w'"
    using assms by (rule Task_schedule_unset)
  have stored: "w_tasks ?w' tid = Some ?t'" by simp
  have isset: "task_set ?t' \<longleftrightarrow> \<not> isnan start \<and> \<not> isnan (fadd (to_double w) start dur)"
    by (simp add: task_set_def)
  have notunset: "\<not> task_unset ?t'" by (simp add: task_unset_def)
  with stored have again: "\<forall>a b x. Task_schedule ?w' tid a b x = Inl AssertionError"
    using Task_schedule_set by blast
  have frame: "\<forall>k. k \<noteq> tid \<longrightarrow> w_tasks ?w' k = w_tasks w k" by simp
  have fresh: "task_unset (Task_init i d)" "task_unset (Task_reset ?t')"
    by (simp_all add: task_unset_def Task_init_def Task_reset_def)
  have keep: "\<not> isnan start \<and> \<not> isnan (fadd (to_double w) start dur)
                \<and> (\<forall>k u. w_tasks w k = Some u \<longrightarrow> task_unset u \<or> task_set u) \<longrightarrow>
                (\<forall>k u. w_tasks ?w' k = Some u \<longrightarrow> task_unset u \<or> task_set u)"
    using isset by (auto split: if_splits)
  have any: "\<forall>w2 k u a b x. w_tasks w2 k = Some u \<and> \<not> task_unset u \<longrightarrow>
                Task_schedule w2 k a b x = Inl AssertionError"
    by (auto intro!: Task_schedule_set)
  from run stored isset notunset again frame keep any fresh show ?thesis
    by (intro exI[of _ ?w'] exI[of _ ?t']) (simp del: fun_upd_apply)
qed

theorem Task_schedule_sets_once_witness:
  "w_tasks (ex_world (\<lambda>i. 0)) 0 = Some ((Task_init 0 (Fin 4))\<lparr>t_stage := Some 0\<rparr>)
   \<and> task_unset ((Task_init 0 (Fin 4))\<lparr>t_stage := Some 0\<rparr>)
   \<and> w_stages (ex_world (\<lambda>i. 0)) 0 = Some ex_stage
   \<and> w_executors (ex_world (\<lambda>i. 0)) 0 = Some ex_executor
   \<and> (\<exists>w' t'. Task_schedule (ex_world (\<lambda>i. 0)) 0 (Fin 2) (Fin 5) 0 = Inr w'
         \<and> w_tasks w' 0 = Some t' \<and> t_start_time t' = Fin 2 \<and> t_finish_time t' = Fin 7
         \<and> t_executor t' = Some 0 \<and> task_set t'
         \<and> Task_schedule w' 0 (Fin 3) (Fin 1) 0 = Inl AssertionError)"
proof -
  let ?w = "ex_world (\<lambda>i. 0)"
  have h1: "w_tasks ?w 0 = Some ((Task_init 0 (Fin 4))\<lparr>t_stage := Some 0\<rparr>)"
    by (simp add: ex_world_def)
  have h2: "task_unset ((Task_init 0 (Fin 4))\<lparr>t_stage := Some 0\<rparr>)"
    by (simp add: task_unset_def Task_init_def)
  have h3: "t_stage ((Task_init 0 (Fin 4))\<lparr>t_stage := Some 0\<rparr>) = Some 0" by simp
  have h4: "w_stages ?w 0 = Some ex_stage" by (simp add: ex_world_def)
  have h5: "w_executors ?w 0 = Some ex_executor" by (simp add: ex_world_def)
  have sum: "\<And>g. to_double (ex_world g) = Fin" by (simp add: ex_world_def)
  from Task_schedule_sets_once [OF h1 h2 h3 h4 h5, of "Fin 2" "Fin 5" 0 NaN]
  obtain w' t' where r: "Task_schedule ?w 0 (Fin 2) (Fin 5) 0 = Inr w'"
    "w_tasks w' 0 = Some t'" "t_start_time t' = Fin 2"
    "t_finish_time t' = fadd (to_double ?w) (Fin 2) (Fin 5)"
    "t_executor t' = Some 0"
    "task_set t' \<longleftrightarrow> \<not> isnan (Fin 2) \<and> \<not> isnan (fadd (to_double ?w) (Fin 2) (Fin 5))"
    "\<forall>a b x. Task_schedule w' 0 a b x = Inl AssertionError"
    by blast
  from r(4,6) have "t_finish_time t' = Fin 7" "task_set t'" by (simp_all add: sum)
  with r have "\<exists>w' t'. Task_schedule ?w 0 (Fin 2) (Fin 5) 0 = Inr w'
         \<and> w_tasks w' 0 = Some t' \<and> t_start_time t' = Fin 2 \<and> t_finish_time t' = Fin 7
         \<and> t_executor t' = Some 0 \<and> task_set t'
         \<and> Task_schedule w' 0 (Fin 3) (Fin 1) 0 = Inl AssertionError"
    by (intro exI[of _ w'] exI[of _ t']) simp
  with h1 h2 h4 h5 show ?thesis by blast
qed

section \<open>Stage.schedule: the random sources\<close>

text \<open>
  C1 (the code departs from the claim): two calls of \<^verbatim>\<open>Stage.schedule\<close> on stores that
  agree in everything, the generator given to the stage included, and differ only in the
  state of numpy's module-level generator. The scheduled task gets duration and finish
  time 7 in one run and 9 in the other, in both files: the duration draw reads the
  module-level generator, not the one passed in at construction.
\<close>

theorem schedule_duration_follows_global_random:
  "(case Stage_schedule EnvPy (ex_world (\<lambda>i. 0)) 0 0 of
      Inl err \<Rightarrow> False
    | Inr (w, tid) \<Rightarrow>
        map_option (\<lambda>t. (t_duration t, t_finish_time t)) (w_tasks w tid) = Some (Fin 7, Fin 7))
   \<and> (case Stage_schedule EnvPy (ex_world (\<lambda>i. 1)) 0 0 of
      Inl err \<Rightarrow> False
    | Inr (w, tid) \<Rightarrow>
        map_option (\<lambda>t. (t_duration t, t_finish_time t)) (w_tasks w tid) = Some (Fin 9, Fin 9))
   \<and> (case Stage_schedule StagePy (ex_world (\<lambda>i. 0)) 0 0 of
      Inl err \<Rightarrow> False
    | Inr (w, tid) \<Rightarrow>
        map_option (\<lambda>t. (t_duration t, t_finish_time t)) (w_tasks w tid) = Some (Fin 7, Fin 7))
   \<and> (case Stage_schedule StagePy (ex_world (\<lambda>i. 1)) 0 0 of
      Inl err \<Rightarrow> False
    | Inr (w, tid) \<Rightarrow>
        map_option (\<lambda>t. (t_duration t, t_finish_time t)) (w_tasks w tid) = Some (Fin 9, Fin 9))"
  by code_simp

section \<open>Job.update\_frontier\_stages\<close>

text \<open>
  C4 (the code departs from the claim): stage 0 has finished and its child, stage 1, is
  runnable. The first call adds stage 1 to the frontier and returns true. A second call
  finds stage 1 in the frontier already and leaves the frontier as it is, and returns
  true again: the test \<^verbatim>\<open>child.idx not in self.frontier_stages\<close> looks an integer up
  among stage objects and never fails.
\<close>

theorem update_frontier_reports_unchanged_as_changed:
  "(case update_frontier_stages fr_world 0 0 of
      Inl err \<Rightarrow> False
    | Inr (w, is_changed) \<Rightarrow>
        is_changed \<and> map_option j_frontier_stages (w_jobs w 0) = Some [1]
        \<and> (case update_frontier_stages w 0 0 of
              Inl err \<Rightarrow> False
            | Inr (w', is_changed') \<Rightarrow>
                is_changed' \<and> map_option j_frontier_stages (w_jobs w' 0) = Some [1]))"
  by code_simp

section \<open>Stage.schedule: the last task\<close>

text \<open>
  C5 (the code departs from the claim): after the first of the stage's two tasks is
  scheduled, \<^verbatim>\<open>next_task_idx\<close> is \<^verbatim>\<open>num_tasks - 1\<close> and the stage is in its job's
  frontier. Scheduling the last task with env.py raises \<^verbatim>\<open>AttributeError\<close>
  (\<^verbatim>\<open>frontier_staes\<close>); the same call with spark\_env/stage.py returns task 1, sets
  \<^verbatim>\<open>no_more_task\<close> and empties the frontier.
\<close>

theorem schedule_last_task_raises_in_env:
  "(case Stage_schedule EnvPy (ex_world (\<lambda>i. 0)) 0 0 of
      Inl err \<Rightarrow> False
    | Inr (w, tid) \<Rightarrow>
        map_option (\<lambda>s. (s_next_task_idx s, s_num_tasks s)) (w_stages w 0) = Some (1, 2)
        \<and> map_option j_frontier_stages (w_jobs w 0) = Some [0]
        \<and> (case Stage_schedule EnvPy w 0 0 of
              Inl err \<Rightarrow> err = AttributeError
            | Inr done \<Rightarrow> False)
        \<and> (case Stage_schedule StagePy w 0 0 of
              Inl err \<Rightarrow> False
            | Inr (w', tid') \<Rightarrow>
                tid' = 1 \<and> map_option s_no_more_task (w_stages w' 0) = Some True
                \<and> map_option j_frontier_stages (w_jobs w' 0) = Some []))"
  by code_simp

section \<open>Stage.sample\_executor\_key\<close>

text \<open>
  C7 (the code departs from the claim): with the recorded counts 5 and 10 and capacity
  12, the count 9 lies in the interval (5, 10), one step from 10 and four from 5. The
  draw \<^verbatim>\<open>randint(1, 6)\<close> has five outcomes, one per residue of the raw output; four of
  them resolve to 5, the farther point, and one to 10, in both files.
\<close>

theorem sample_executor_key_favours_far_point:
  "dict_get ex_intervals 9 = Inr (5, 10)
   \<and> map (\<lambda>r. map_sum id fst (sample_executor_key EnvPy (\<lambda>i. r) ex_stage ex_job 9))
        [0, 1, 2, 3, 4] = [Inr 5, Inr 5, Inr 5, Inr 5, Inr 10]
   \<and> map (\<lambda>r. map_sum id fst (sample_executor_key StagePy (\<lambda>i. r) ex_stage ex_job 9))
        [0, 1, 2, 3, 4] = [Inr 5, Inr 5, Inr 5, Inr 5, Inr 10]"
  by code_simp

section \<open>merge\_jobs: the synthetic edge\<close>

text \<open>
  C9 (the code departs from the claim): the first job has the edge from its stage 1 to
  its stage 0, so stage 0 is its sink. After the merge the parent and child lists link
  the sink, stage 0, to stage 2 of the second job, but the matrix has its new entry in
  row 1: \<^verbatim>\<open>adj_mat[base - 1, base + i]\<close> takes the last stage of the previous job for
  its sink. Row 0 of the matrix stays empty.
\<close>

theorem merge_jobs_links_last_stage_not_sink:
  "(case merge_jobs mg_world [0, 1] of
      Inl err \<Rightarrow> False
    | Inr (w, stages, adj_mat) \<Rightarrow>
        stages = [0, 1, 2]
        \<and> adj_mat = [[0, 0, 0], [1, 0, 1], [0, 0, 0]]
        \<and> map_option s_child_stages (w_stages w 0) = Some [2]
        \<and> map_option s_child_stages (w_stages w 1) = Some [0]
        \<and> map_option s_parent_stages (w_stages w 2) = Some [0])"
  by code_simp

section \<open>Task.get\_duration\<close>

text \<open>
  C10 (the code departs from the claim): an unscheduled task returns its stored
  duration. Once the task is scheduled, by \<^verbatim>\<open>Task.schedule\<close> directly or through
  \<^verbatim>\<open>Stage.schedule\<close>, \<^verbatim>\<open>get_duration\<close> raises \<^verbatim>\<open>TypeError\<close>: the test
  \<^verbatim>\<open>self.time_horizon < self.start_time\<close> compares the \<^verbatim>\<open>TimeHorizon\<close> object with a
  float.
\<close>

theorem get_duration_of_scheduled_task_raises:
  "Task_get_duration (ex_world (\<lambda>i. 0)) 0 = Inr (Fin 4)
   \<and> (case Task_schedule (ex_world (\<lambda>i. 0)) 0 (Fin 0) (Fin 5) 0 of
        Inl err \<Rightarrow> False
      | Inr w \<Rightarrow> Task_get_duration w 0 = Inl TypeError)
   \<and> (case Stage_schedule StagePy (ex_world (\<lambda>i. 0)) 0 0 of
        Inl err \<Rightarrow> False
      | Inr (w, tid) \<Rightarrow> Task_get_duration w tid = Inl TypeError)"
  by code_simp

section \<open>Stage.schedule: the three duration rules\<close>
















section \<open>FreeExecutors: groups of an executor\<close>

lemma set_oset_add: "set (oset_add x xs) = insert x (set xs)"
  by (auto simp add: oset_add_def)

lemma set_fold_oset_add: "set (fold oset_add es xs) = set es \<union> set xs"
  by (induction es arbitrary: xs) (auto simp add: set_oset_add)

lemma group_count_delete:
  "distinct (map fst p) \<Longrightarrow> map_of p k = Some g
   \<Longrightarrow> group_count p x = group_count (AList.delete k p) x + (if x \<in> set g then 1 else 0)"
proof (induction p)
  case Nil
  then show ?case by simp
next
  case (Cons a p)
  show ?case
  proof (cases "fst a = k")
    case True
    with Cons.prems have "snd a = g" "k \<notin> fst ` set p" by (auto simp add: image_iff)
    then show ?thesis using True
      by (cases a) (auto simp add: group_count_def AList.delete_id)
  next
    case False
    with Cons show ?thesis
      by (cases a) (auto simp add: group_count_def AList.delete_eq)
  qed
qed

lemma group_count_update:
  "distinct (map fst p) \<Longrightarrow> map_of p k = Some g
   \<Longrightarrow> group_count (AList.update k g' p) x
       = group_count (AList.delete k p) x + (if x \<in> set g' then 1 else 0)"
proof (induction p)
  case Nil
  then show ?case by simp
next
  case (Cons a p)
  show ?case
  proof (cases "fst a = k")
    case True
    with Cons.prems have "k \<notin> fst ` set p" by (auto simp add: image_iff)
    then show ?thesis using True
      by (cases a) (auto simp add: group_count_def AList.delete_id)
  next
    case False
    with Cons show ?thesis
      by (cases a) (auto simp add: group_count_def AList.delete_eq)
  qed
qed

lemma remove_job_loop_pool:
  "remove_job_loop p w es = Inr (p', w')
   \<Longrightarrow> (es = [] \<and> p' = p)
       \<or> (\<exists>free. map_of p None = Some free \<and> p' = AList.update None (fold oset_add es free) p)"
proof (induction es arbitrary: p w)
  case Nil
  then show ?case by simp
next
  case (Cons e es)
  from Cons.prems obtain p1 w1 where
    step: "remove_job_step p w e = Inr (p1, w1)" and rest: "remove_job_loop p1 w1 es = Inr (p', w')"
    by (auto split: sum.splits)
  from step obtain free where free: "map_of p None = Some free"
    and p1: "p1 = AList.update None (oset_add e free) p"
    by (auto simp add: remove_job_step_def ebind_eq_Inr dict_get_eq_Inr)
  have look: "map_of p1 None = Some (oset_add e free)"
    by (simp add: p1 AList.update_conv')
  from Cons.IH [OF rest] show ?case
  proof
    assume "es = [] \<and> p' = p1"
    with free p1 show ?thesis by simp
  next
    assume "\<exists>f. map_of p1 None = Some f \<and> p' = AList.update None (fold oset_add es f) p1"
    with look have "p' = AList.update None (fold oset_add es (oset_add e free)) p1" by auto
    with free p1 show ?thesis by simp
  qed
qed

text \<open>
  C3, as the claim states it, fails: an executor in the free group that is added to a
  job's group without being popped first is in two groups afterwards.
\<close>

theorem add_second_group_counterexample:
  "group_count (FreeExecutors_add_job (FreeExecutors_init [0]) (Some 0)) 0 = 1
   \<and> (case FreeExecutors_add (FreeExecutors_add_job (FreeExecutors_init [0]) (Some 0))
              (ex_world (\<lambda>i. 0)) (Some 0) 0 of
        Inl err \<Rightarrow> False
      | Inr (p, w) \<Rightarrow> p = [(None, [0]), (Some 0, [0])] \<and> group_count p 0 = 2)"
  by code_simp

text \<open>
  C3, amended: \<^verbatim>\<open>add(job, executor)\<close> puts the executor into the job's group and
  leaves every other group as it was, so afterwards the executor is in one group more than the number
  of other groups that held it (exactly one group when no other group held it, as after
  \<^verbatim>\<open>pop\<close> or \<^verbatim>\<open>remove\<close>), and every other executor is in as many groups as before.
  \<^verbatim>\<open>remove_job(job)\<close> for a job other than \<^verbatim>\<open>None\<close> keeps exclusivity: an executor
  that was in exactly one group is in exactly one group afterwards.
\<close>

theorem FreeExecutors_group_counts:
  assumes keys: "distinct (map fst p)"
  shows "(FreeExecutors_add p w job eid = Inr (p1, w1) \<longrightarrow>
            group_count p1 eid = Suc (group_count (AList.delete job p) eid)
            \<and> (\<forall>x. x \<noteq> eid \<longrightarrow> group_count p1 x = group_count p x)
            \<and> (\<exists>g. map_of p job = Some g \<and> map_of p1 job = Some (oset_add eid g))
            \<and> (\<forall>k. k \<noteq> job \<longrightarrow> map_of p1 k = map_of p k))
       \<and> (job \<noteq> None \<and> FreeExecutors_remove_job p w job = Inr (p2, w2) \<longrightarrow>
            (\<forall>x. group_count p x = 1 \<longrightarrow> group_count p2 x = 1))"
proof (intro conjI impI)
  assume add: "FreeExecutors_add p w job eid = Inr (p1, w1)"
  then obtain g where g: "map_of p job = Some g" and p1: "p1 = AList.update job (oset_add eid g) p"
    by (auto simp add: FreeExecutors_add_def ebind_eq_Inr dict_get_eq_Inr)
  show "group_count p1 eid = Suc (group_count (AList.delete job p) eid)"
    by (simp add: p1 group_count_update [OF keys g] set_oset_add)
  show "\<forall>x. x \<noteq> eid \<longrightarrow> group_count p1 x = group_count p x"
    by (simp add: p1 group_count_update [OF keys g] group_count_delete [OF keys g] set_oset_add)
  show "\<exists>g. map_of p job = Some g \<and> map_of p1 job = Some (oset_add eid g)"
    using g by (simp add: p1 AList.update_conv')
  show "\<forall>k. k \<noteq> job \<longrightarrow> map_of p1 k = map_of p k"
    by (simp add: p1 AList.update_conv')
next
  assume "job \<noteq> None \<and> FreeExecutors_remove_job p w job = Inr (p2, w2)"
  then have job: "job \<noteq> None" and run: "FreeExecutors_remove_job p w job = Inr (p2, w2)"
    by simp_all
  from run obtain g p' w' where g: "map_of p job = Some g"
    and loop: "remove_job_loop p w g = Inr (p', w')"
    and del: "map_of p' job \<noteq> None" "p2 = AList.delete job p'"
    by (auto simp add: FreeExecutors_remove_job_def ebind_eq_Inr dict_get_eq_Inr dict_del_def
        split: if_splits)
  show "\<forall>x. group_count p x = 1 \<longrightarrow> group_count p2 x = 1"
  proof (intro allI impI)
    fix x assume one: "group_count p x = 1"
    from remove_job_loop_pool [OF loop] show "group_count p2 x = 1"
    proof
      assume "g = [] \<and> p' = p"
      with del one group_count_delete [OF keys g, of x] show ?thesis by simp
    next
      assume "\<exists>free. map_of p None = Some free \<and> p' = AList.update None (fold oset_add g free) p"
      then obtain free where free: "map_of p None = Some free"
        and p': "p' = AList.update None (fold oset_add g free) p" by blast
      let ?q = "AList.delete job p"
      have dq: "distinct (map fst ?q)" using keys by (rule AList.distinct_delete)
      have fq: "map_of ?q None = Some free" using free job by (auto simp add: AList.delete_conv')
      have p2: "p2 = AList.update None (fold oset_add g free) ?q"
      proof -
        from job have "None \<noteq> job" by auto
        then have "AList.delete job (AList.update None (fold oset_add g free) p)
            = AList.update None (fold oset_add g free) (AList.delete job p)"
          by (rule AList.delete_update)
        then show ?thesis unfolding del(2) p' .
      qed
      have "group_count p x = group_count (AList.delete None ?q) x
              + (if x \<in> set free then 1 else 0) + (if x \<in> set g then 1 else 0)"
        using group_count_delete [OF keys g, of x] group_count_delete [OF dq fq, of x] by simp
      moreover have "group_count p2 x = group_count (AList.delete None ?q) x
              + (if x \<in> set g \<or> x \<in> set free then 1 else 0)"
        using group_count_update [OF dq fq, of "fold oset_add g free" x]
        by (simp add: p2 set_fold_oset_add)
      ultimately show ?thesis using one by (cases "x \<in> set g"; cases "x \<in> set free"; simp)
    qed
  qed
qed

theorem FreeExecutors_group_counts_witness:
  "distinct (map fst ([(None, [1]), (Some 0, [])] :: free_executors))
   \<and> distinct (map fst ([(None, [1]), (Some 0, [0])] :: free_executors))
   \<and> (\<exists>p1 w1. FreeExecutors_add [(None, [1]), (Some 0, [])] (ex_world (\<lambda>i. 0)) (Some 0) 0
                  = Inr (p1, w1)
         \<and> group_count p1 0 = 1 \<and> group_count p1 1 = 1)
   \<and> (\<exists>p2 w2. FreeExecutors_remove_job [(None, [1]), (Some 0, [0])] (ex_world (\<lambda>i. 0)) (Some 0)
                  = Inr (p2, w2)
         \<and> group_count p2 0 = 1 \<and> group_count p2 1 = 1)"
proof -
  let ?pa = "[(None, [1]), (Some 0, [])] :: free_executors"
  let ?pb = "[(None, [1]), (Some 0, [0])] :: free_executors"
  let ?w = "ex_world (\<lambda>i. 0)"
  have ka: "distinct (map fst ?pa)" and kb: "distinct (map fst ?pb)" by simp_all
  have "(case FreeExecutors_add ?pa ?w (Some 0) 0 of Inl err \<Rightarrow> False | Inr r \<Rightarrow> True)"
    by code_simp
  then obtain p1 w1 where add: "FreeExecutors_add ?pa ?w (Some 0) 0 = Inr (p1, w1)"
    by (auto split: sum.splits)
  have "(case FreeExecutors_remove_job ?pb ?w (Some 0) of Inl err \<Rightarrow> False | Inr r \<Rightarrow> True)"
    by code_simp
  then obtain p2 w2 where rem: "FreeExecutors_remove_job ?pb ?w (Some 0) = Inr (p2, w2)"
    by (auto split: sum.splits)
  have ca: "group_count (AList.delete (Some 0) ?pa) 0 = 0" "group_count ?pa 1 = 1"
    by (simp_all add: group_count_def)
  have cb: "group_count ?pb 0 = 1" "group_count ?pb 1 = 1"
    by (simp_all add: group_count_def)
  from FreeExecutors_group_counts [OF ka, of ?w "Some 0" 0 p1 w1] add ca
  have a: "group_count p1 0 = 1 \<and> group_count p1 1 = 1" by simp
  from FreeExecutors_group_counts [OF kb, of ?w "Some 0" _ _ _ p2 w2] rem cb
  have b: "group_count p2 0 = 1 \<and> group_count p2 1 = 1" by simp
  have "\<exists>p1 w1. FreeExecutors_add ?pa ?w (Some 0) 0 = Inr (p1, w1)
         \<and> group_count p1 0 = 1 \<and> group_count p1 1 = 1"
    using add a by (intro exI[of _ p1] exI[of _ w1]) simp
  moreover have "\<exists>p2 w2. FreeExecutors_remove_job ?pb ?w (Some 0) = Inr (p2, w2)
         \<and> group_count p2 0 = 1 \<and> group_count p2 1 = 1"
    using rem b by (intro exI[of _ p2] exI[of _ w2]) simp
  ultimately show ?thesis using ka kb by - (intro conjI; assumption)
qed

section \<open>ExecutorCommit: conservation\<close>


lemma pair_count_delete:
  "pair_count (AList.delete k d) stage = (if stage = k then 0 else pair_count d stage)"
  by (simp add: pair_count_def AList.delete_conv')




























end
